theory Spec2Isabelle
  imports Main
begin

section \<open>The Stanza wrapper of the CLTK (\<^verbatim>\<open>cltkv1/dependency/stanza.py\<close>)\<close>

text \<open>
  The class \<^verbatim>\<open>StanzaWrapper\<close> validates a language and a treebank, makes sure
  that a model file is on disk (downloading it when it is not) and builds a pipeline of
  the external library. Exceptions are values of a sum type, the file system and the
  observable effects (file-existence checks, printed lines, calls of the external
  library) are an explicit \<open>world\<close> that every effectful method takes and returns, and
  the external library is a parameter of the model.
\<close>

subsection \<open>Errors\<close>

text \<open>
  \<^verbatim>\<open>KeyError\<close> is raised at four places: by the two handlers of
  \<^verbatim>\<open>_get_stanza_code\<close> (with a message) and by the two unguarded dictionary
  reads \<^verbatim>\<open>self.map_code_treebanks[self.stanza_code]\<close> and
  \<^verbatim>\<open>stanza_default_treebanks[self.stanza_code]\<close> (with the missing key).
\<close>

datatype key_error =
    LanguageRenamed
  | MapOutOfSync
  | MissingKey string

datatype error =
    UnknownLanguageError string
  | UnimplementedLanguageError string string
  | KeyError key_error
  | FileNotFoundError string
  | LibraryError string

subsection \<open>Effects and the world\<close>

text \<open>
  The nine \<^verbatim>\<open>print\<close> calls of \<^verbatim>\<open>_download_model\<close> write empty lines, a
  rule of eighty capital alphas, the message of the CLTK and a rule of eighty capital
  omegas; a printed line is recorded by its kind.
\<close>

datatype notice_line = Blank | AlphaRule | CltkMessage | OmegaRule

record pipeline_args =
  lang :: string
  dir :: string
  package :: string
  processors :: string
  logging_level :: string
  use_gpu :: bool
  lemma_use_identity :: bool

datatype event =
    EvFileExists string
  | EvPrint notice_line
  | EvDownload string string
  | EvSuppressStdout
  | EvPipeline pipeline_args
  | EvRestoreStdout

record world =
  files :: "string set"
  trace :: "event list"

text \<open>
  What the wrapper imports from outside: the two tables of the external library
  (\<^verbatim>\<open>lang2lcode\<close> and \<^verbatim>\<open>default_treebanks\<close>), its downloader, which changes
  the files on disk and may raise, its pipeline constructor, which reads them and may
  raise, and the home directory that \<^verbatim>\<open>os.path.expanduser\<close> puts in the place of
  the tilde. An exception raised inside the library is given by its message and reaches
  the caller as \<open>LibraryError\<close>. The pipeline object is opaque: a type parameter.
\<close>

record 'p environment =
  lang2lcode :: "string \<rightharpoonup> string"
  default_treebanks :: "string \<rightharpoonup> string"
  stanza_download :: "string \<Rightarrow> string \<Rightarrow> string set \<Rightarrow> string option \<times> string set"
  stanza_Pipeline :: "pipeline_args \<Rightarrow> string set \<Rightarrow> string + 'p"
  home :: string

text \<open>
  Modelled from the spec: \<^verbatim>\<open>cltkv1.utils.file_exists\<close> is not among the sources;
  the spec calls it a file-existence check utility, a simple boolean test. The check is
  recorded in the trace.
\<close>

definition file_exists :: "world \<Rightarrow> string \<Rightarrow> bool \<times> world" where
  "file_exists w p = (p \<in> files w, w\<lparr>trace := trace w @ [EvFileExists p]\<rparr>)"

text \<open>
  \<^verbatim>\<open>os.path.expanduser\<close> on a path that starts with \<^verbatim>\<open>~/\<close>, the only kind
  of path the wrapper passes: the tilde is replaced by the home directory. Any other
  path is returned as it is.
\<close>

definition expanduser :: "string \<Rightarrow> string \<Rightarrow> string" where
  "expanduser h p = (if take 2 p = ''~/'' then h @ tl p else p)"

subsection \<open>The instance and its tables\<close>

record 'p StanzaWrapper =
  sw_language :: string
  sw_treebank :: string
  sw_stanza_debug_level :: string
  sw_wrapper_available :: bool
  sw_stanza_code :: string
  sw_model_path :: string
  sw_nlp :: 'p

definition map_langs_cltk_stanza :: "string \<rightharpoonup> string" where
  "map_langs_cltk_stanza = map_of
     [(''grc'', ''Ancient_Greek''),
      (''lat'', ''Latin''),
      (''chu'', ''Old_Church_Slavonic''),
      (''fro'', ''Old_French''),
      (''got'', ''Gothic'')]"

definition map_code_treebanks :: "string \<rightharpoonup> string list" where
  "map_code_treebanks = map_of
     [(''grc'', [''proiel'', ''perseus'']),
      (''la'', [''perseus'', ''proiel'', ''ittb''])]"

subsection \<open>The methods\<close>

text \<open>
  A method reads attributes of \<^verbatim>\<open>self\<close>; in the model it takes the attributes it
  reads as arguments, since the instance is still under construction when
  \<^verbatim>\<open>__init__\<close> calls it.
\<close>

definition is_wrapper_available :: "string \<Rightarrow> bool" where
  "is_wrapper_available language =
     (if map_langs_cltk_stanza language \<noteq> None then True else False)"

definition get_stanza_code :: "'p environment \<Rightarrow> string \<Rightarrow> error + string" where
  "get_stanza_code env language =
     (case map_langs_cltk_stanza language of
        None \<Rightarrow> Inl (KeyError LanguageRenamed)
      | Some stanza_lang_name \<Rightarrow>
          (case lang2lcode env stanza_lang_name of
             None \<Rightarrow> Inl (KeyError MapOutOfSync)
           | Some code \<Rightarrow> Inr code))"

definition is_valid_treebank :: "string \<Rightarrow> string \<Rightarrow> error + bool" where
  "is_valid_treebank stanza_code treebank =
     (case map_code_treebanks stanza_code of
        None \<Rightarrow> Inl (KeyError (MissingKey stanza_code))
      | Some possible_treebanks \<Rightarrow>
          Inr (if treebank \<in> set possible_treebanks then True else False))"

definition get_default_treebank :: "'p environment \<Rightarrow> string \<Rightarrow> error + string" where
  "get_default_treebank env stanza_code =
     (case default_treebanks env stanza_code of
        None \<Rightarrow> Inl (KeyError (MissingKey stanza_code))
      | Some treebank \<Rightarrow> Inr treebank)"

definition is_model_present :: "world \<Rightarrow> string \<Rightarrow> bool \<times> world" where
  "is_model_present w model_path =
     (case file_exists w model_path of
        (present, w') \<Rightarrow> (if present then True else False, w'))"

definition notice :: "notice_line list" where
  "notice = [Blank, Blank, AlphaRule, Blank, CltkMessage, Blank, OmegaRule, Blank, Blank]"

text \<open>
  \<^verbatim>\<open>_download_model\<close>: the notice, one call of the downloader with
  \<^verbatim>\<open>self.language\<close> and \<^verbatim>\<open>self.treebank\<close>, then the second check of the
  model path. An exception of the downloader propagates.
\<close>

definition download_model ::
  "'p environment \<Rightarrow> world \<Rightarrow> string \<Rightarrow> string \<Rightarrow> string \<Rightarrow> error option \<times> world" where
  "download_model env w language treebank model_path =
     (let w1 = w\<lparr>trace := trace w @ map EvPrint notice\<rparr>;
          w2 = w1\<lparr>trace := trace w1 @ [EvDownload language treebank]\<rparr>
      in case stanza_download env language treebank (files w2) of
           (Some m, fs) \<Rightarrow> (Some (LibraryError m), w2\<lparr>files := fs\<rparr>)
         | (None, fs) \<Rightarrow>
             (case file_exists (w2\<lparr>files := fs\<rparr>) model_path of
                (present, w3) \<Rightarrow>
                  if \<not> present then (Some (FileNotFoundError model_path), w3)
                  else (None, w3)))"

text \<open>\<^verbatim>\<open>_load_pipeline\<close>: the keyword arguments of the one call of the constructor.\<close>

definition load_pipeline ::
  "'p environment \<Rightarrow> world \<Rightarrow> string \<Rightarrow> string \<Rightarrow> string \<Rightarrow> string \<Rightarrow> (error + 'p) \<times> world" where
  "load_pipeline env w language stanza_code treebank stanza_debug_level =
     (let models_dir = expanduser (home env) ''~/stanza_resources/'';
          fro = (language = ''fro'');
          args = \<lparr>lang = stanza_code,
                  dir = models_dir,
                  package = treebank,
                  processors = (if fro then ''tokenize,pos,lemma''
                                else ''tokenize,mwt,pos,lemma,depparse''),
                  logging_level = stanza_debug_level,
                  use_gpu = True,
                  lemma_use_identity = (if fro then True else False)\<rparr>
      in (case stanza_Pipeline env args (files w) of
            Inl m \<Rightarrow> Inl (LibraryError m)
          | Inr nlp \<Rightarrow> Inr nlp,
          w\<lparr>trace := trace w @ [EvPipeline args]\<rparr>))"

text \<open>
  The block of \<^verbatim>\<open>__init__\<close> under the comment "Setup optional treebank if
  specified" (lines 94 to 107): a treebank that passes Python's truth test is checked
  against the table, and \<^verbatim>\<open>None\<close> and the empty string, which both fail the test,
  are replaced by the default of the external library. The result is the value of
  \<^verbatim>\<open>self.treebank\<close> after the block, or the exception raised in it.
\<close>

definition setup_treebank ::
  "'p environment \<Rightarrow> string \<Rightarrow> string \<Rightarrow> string option \<Rightarrow> error + string" where
  "setup_treebank env stanza_code language treebank =
     (case treebank of
        None \<Rightarrow> get_default_treebank env stanza_code
      | Some t \<Rightarrow>
          if t \<noteq> [] then
            (case is_valid_treebank stanza_code t of
               Inl e \<Rightarrow> Inl e
             | Inr valid_treebank \<Rightarrow>
                 if \<not> valid_treebank then Inl (UnimplementedLanguageError t language)
                 else Inr t)
          else get_default_treebank env stanza_code)"

text \<open>
  \<^verbatim>\<open>__init__\<close>. \<^verbatim>\<open>suppress_stdout\<close> is not among the sources either
  (modelled from the spec: a scoped suppression of standard output, restored on all exit
  paths).
\<close>

definition StanzaWrapper_init ::
  "'p environment \<Rightarrow> world \<Rightarrow> string \<Rightarrow> string option \<Rightarrow> string
     \<Rightarrow> (error + 'p StanzaWrapper) \<times> world" where
  "StanzaWrapper_init env w language treebank stanza_debug_level =
     (let wrapper_available = is_wrapper_available language in
      if \<not> wrapper_available then (Inl (UnknownLanguageError language), w)
      else
        case get_stanza_code env language of
          Inl e \<Rightarrow> (Inl e, w)
        | Inr stanza_code \<Rightarrow>
            (case setup_treebank env stanza_code language treebank of
               Inl e \<Rightarrow> (Inl e, w)
             | Inr tb \<Rightarrow>
                 (let model_path = expanduser (home env)
                        (''~/stanza_resources/'' @ stanza_code @ ''/tokenize/'' @ tb @ ''.pt'')
                  in case is_model_present w model_path of
                       (present, w1) \<Rightarrow>
                         (case (if \<not> present
                                then download_model env w1 language tb model_path
                                else (None, w1)) of
                            (Some e, w2) \<Rightarrow> (Inl e, w2)
                          | (None, w2) \<Rightarrow>
                              (case load_pipeline env
                                      (w2\<lparr>trace := trace w2 @ [EvSuppressStdout]\<rparr>)
                                      language stanza_code tb stanza_debug_level of
                                 (r, w3) \<Rightarrow>
                                   (let w4 = w3\<lparr>trace := trace w3 @ [EvRestoreStdout]\<rparr>
                                    in case r of
                                         Inl e \<Rightarrow> (Inl e, w4)
                                       | Inr nlp \<Rightarrow>
                                           (Inr \<lparr>sw_language = language,
                                                 sw_treebank = tb,
                                                 sw_stanza_debug_level = stanza_debug_level,
                                                 sw_wrapper_available = wrapper_available,
                                                 sw_stanza_code = stanza_code,
                                                 sw_model_path = model_path,
                                                 sw_nlp = nlp\<rparr>, w4)))))))"

subsection \<open>The class-level cache\<close>

text \<open>
  \<^verbatim>\<open>nlps\<close> is a dictionary of the class, from languages to instances. Instances
  are objects with an identity: the store is a list of the instances built so far, and a
  reference is an index into it. An instance enters the store when its construction has
  returned; one whose \<^verbatim>\<open>__init__\<close> raised is referenced from nowhere.
\<close>

record 'p cls_state =
  outside :: world
  nlps :: "string \<rightharpoonup> nat"
  store :: "'p StanzaWrapper list"

definition get_nlp ::
  "'p environment \<Rightarrow> 'p cls_state \<Rightarrow> string \<Rightarrow> string option
     \<Rightarrow> (error + nat) \<times> 'p cls_state" where
  "get_nlp env s language treebank =
     (case nlps s language of
        Some r \<Rightarrow> (Inr r, s)
      | None \<Rightarrow>
          (case StanzaWrapper_init env (outside s) language treebank ''ERROR'' of
             (Inl e, w') \<Rightarrow> (Inl e, s\<lparr>outside := w'\<rparr>)
           | (Inr nlp, w') \<Rightarrow>
               (let r = length (store s)
                in (Inr r, s\<lparr>outside := w',
                             store := store s @ [nlp],
                             nlps := (nlps s)(language \<mapsto> r)\<rparr>))))"

subsection \<open>A sample environment\<close>

text \<open>
  The entries of the external library's two tables for the five languages of the
  wrapper (the docstrings of the wrapper show \<^verbatim>\<open>la\<close> for Latin, \<^verbatim>\<open>grc\<close> for
  Greek and \<^verbatim>\<open>proiel\<close> as the default for Greek), a downloader that stores the
  tokenizer model under the language code it is given, and a pipeline constructor that
  returns its arguments. The world is either empty or stocked with two models.
\<close>

definition sample_lang2lcode :: "string \<rightharpoonup> string" where
  "sample_lang2lcode = map_of
     [(''Ancient_Greek'', ''grc''),
      (''Latin'', ''la''),
      (''Old_Church_Slavonic'', ''cu''),
      (''Old_French'', ''fro''),
      (''Gothic'', ''got'')]"

definition sample_default_treebanks :: "string \<rightharpoonup> string" where
  "sample_default_treebanks = map_of
     [(''grc'', ''proiel''),
      (''la'', ''ittb''),
      (''cu'', ''proiel''),
      (''fro'', ''srcmf''),
      (''got'', ''proiel'')]"

definition sample_download :: "string \<Rightarrow> string \<Rightarrow> string set \<Rightarrow> string option \<times> string set" where
  "sample_download l p fs =
     (None, insert (''/home/user/stanza_resources/'' @ l @ ''/tokenize/'' @ p @ ''.pt'') fs)"

definition sample_env :: "pipeline_args environment" where
  "sample_env =
     \<lparr>lang2lcode = sample_lang2lcode,
      default_treebanks = sample_default_treebanks,
      stanza_download = sample_download,
      stanza_Pipeline = (\<lambda>args fs. Inr args),
      home = ''/home/user''\<rparr>"

definition empty_world :: world where
  "empty_world = \<lparr>files = {}, trace = []\<rparr>"

definition stocked_world :: world where
  "stocked_world =
     \<lparr>files = {''/home/user/stanza_resources/grc/tokenize/perseus.pt'',
                ''/home/user/stanza_resources/la/tokenize/perseus.pt''},
      trace = []\<rparr>"

definition empty_cls :: "pipeline_args cls_state" where
  "empty_cls = \<lparr>outside = empty_world, nlps = Map.empty, store = []\<rparr>"

subsection \<open>Notions used to state the properties\<close>

text \<open>
  The path of the model file as the specification gives it, the keyword arguments of the
  call of the pipeline constructor, the part of \<^verbatim>\<open>__init__\<close> from the call of
  \<^verbatim>\<open>_load_pipeline\<close> on, and tests on events.
\<close>

definition spec_model_path :: "string \<Rightarrow> string \<Rightarrow> string \<Rightarrow> string" where
  "spec_model_path h code tb = h @ ''/stanza_resources/'' @ code @ ''/tokenize/'' @ tb @ ''.pt''"

definition call_args :: "'p environment \<Rightarrow> string \<Rightarrow> string \<Rightarrow> string \<Rightarrow> string \<Rightarrow> pipeline_args" where
  "call_args env language code tb dbg =
     \<lparr>lang = code,
      dir = home env @ ''/stanza_resources/'',
      package = tb,
      processors = (if language = ''fro'' then ''tokenize,pos,lemma''
                    else ''tokenize,mwt,pos,lemma,depparse''),
      logging_level = dbg,
      use_gpu = True,
      lemma_use_identity = (language = ''fro'')\<rparr>"

definition finish ::
  "'p environment \<Rightarrow> world \<Rightarrow> string \<Rightarrow> string \<Rightarrow> string \<Rightarrow> string
     \<Rightarrow> (error + 'p StanzaWrapper) \<times> world" where
  "finish env w language code tb dbg =
     (case stanza_Pipeline env (call_args env language code tb dbg) (files w) of
        Inl m \<Rightarrow> Inl (LibraryError m)
      | Inr nlp \<Rightarrow>
          Inr \<lparr>sw_language = language, sw_treebank = tb, sw_stanza_debug_level = dbg,
               sw_wrapper_available = True, sw_stanza_code = code,
               sw_model_path = spec_model_path (home env) code tb, sw_nlp = nlp\<rparr>,
      w\<lparr>trace := trace w @
          [EvSuppressStdout, EvPipeline (call_args env language code tb dbg), EvRestoreStdout]\<rparr>)"

fun is_download :: "event \<Rightarrow> bool" where
  "is_download (EvDownload l p) = True"
| "is_download e = False"

fun is_print :: "event \<Rightarrow> bool" where
  "is_print (EvPrint l) = True"
| "is_print e = False"

section \<open>Properties\<close>

subsection \<open>The paths through the constructor\<close>

text \<open>
  Once the language code and the treebank are resolved, the constructor takes one of four
  paths: the model is on disk; it is not and the downloader raises; it is not and is
  still missing after the download; it is not and the download delivers it.
\<close>

lemma supported_iff:
  "is_wrapper_available language \<longleftrightarrow> language \<in> {''grc'', ''lat'', ''chu'', ''fro'', ''got''}"
  by (simp add: is_wrapper_available_def map_langs_cltk_stanza_def)

lemma model_path_eq:
  "expanduser h (''~/stanza_resources/'' @ code @ ''/tokenize/'' @ tb @ ''.pt'')
     = spec_model_path h code tb"
  by (simp add: expanduser_def spec_model_path_def)

lemma load_pipeline_eq:
  "load_pipeline env w language code tb dbg =
     (case stanza_Pipeline env (call_args env language code tb dbg) (files w) of
        Inl m \<Rightarrow> Inl (LibraryError m) | Inr nlp \<Rightarrow> Inr nlp,
      w\<lparr>trace := trace w @ [EvPipeline (call_args env language code tb dbg)]\<rparr>)"
  by (simp add: load_pipeline_def call_args_def expanduser_def Let_def)

lemma code_available:
  "get_stanza_code env language = Inr code \<Longrightarrow> is_wrapper_available language"
  by (auto simp: get_stanza_code_def is_wrapper_available_def split: option.splits)

lemma filter_notice [simp]:
  "filter is_download (map EvPrint notice) = []" 
  by (simp add: notice_def)

lemma init_present:
  assumes "get_stanza_code env language = Inr code"
    and "setup_treebank env code language treebank = Inr tb"
    and "spec_model_path (home env) code tb \<in> files w"
  shows "StanzaWrapper_init env w language treebank dbg =
           finish env (w\<lparr>trace := trace w @ [EvFileExists (spec_model_path (home env) code tb)]\<rparr>)
             language code tb dbg"
  using assms code_available[OF assms(1)]
  unfolding StanzaWrapper_init_def model_path_eq
  by (simp add: is_model_present_def file_exists_def
      load_pipeline_eq finish_def Let_def split: sum.splits)

lemma init_absent_raise:
  assumes "get_stanza_code env language = Inr code"
    and "setup_treebank env code language treebank = Inr tb"
    and "spec_model_path (home env) code tb \<notin> files w"
    and "stanza_download env language tb (files w) = (Some m, fs)"
  shows "StanzaWrapper_init env w language treebank dbg =
           (Inl (LibraryError m),
            \<lparr>files = fs,
             trace = trace w @ [EvFileExists (spec_model_path (home env) code tb)]
               @ map EvPrint notice @ [EvDownload language tb]\<rparr>)"
  using assms code_available[OF assms(1)]
  unfolding StanzaWrapper_init_def model_path_eq
  by (simp add: is_model_present_def file_exists_def download_model_def Let_def)

lemma init_absent_missing:
  assumes "get_stanza_code env language = Inr code"
    and "setup_treebank env code language treebank = Inr tb"
    and "spec_model_path (home env) code tb \<notin> files w"
    and "stanza_download env language tb (files w) = (None, fs)"
    and "spec_model_path (home env) code tb \<notin> fs"
  shows "StanzaWrapper_init env w language treebank dbg =
           (Inl (FileNotFoundError (spec_model_path (home env) code tb)),
            \<lparr>files = fs,
             trace = trace w @ [EvFileExists (spec_model_path (home env) code tb)]
               @ map EvPrint notice
               @ [EvDownload language tb, EvFileExists (spec_model_path (home env) code tb)]\<rparr>)"
  using assms code_available[OF assms(1)]
  unfolding StanzaWrapper_init_def model_path_eq
  by (simp add: is_model_present_def file_exists_def download_model_def Let_def)

lemma init_absent_fetched:
  assumes "get_stanza_code env language = Inr code"
    and "setup_treebank env code language treebank = Inr tb"
    and "spec_model_path (home env) code tb \<notin> files w"
    and "stanza_download env language tb (files w) = (None, fs)"
    and "spec_model_path (home env) code tb \<in> fs"
  shows "StanzaWrapper_init env w language treebank dbg =
           finish env
             \<lparr>files = fs,
              trace = trace w @ [EvFileExists (spec_model_path (home env) code tb)]
                @ map EvPrint notice
                @ [EvDownload language tb, EvFileExists (spec_model_path (home env) code tb)]\<rparr>
             language code tb dbg"
  using assms code_available[OF assms(1)]
  unfolding StanzaWrapper_init_def model_path_eq
  by (simp add: is_model_present_def file_exists_def
      download_model_def load_pipeline_eq finish_def Let_def split: sum.splits)

lemma init_unavailable:
  "\<not> is_wrapper_available language \<Longrightarrow>
   StanzaWrapper_init env w language treebank dbg = (Inl (UnknownLanguageError language), w)"
  by (simp add: StanzaWrapper_init_def)

lemma init_code_error:
  "is_wrapper_available language \<Longrightarrow> get_stanza_code env language = Inl e \<Longrightarrow>
   StanzaWrapper_init env w language treebank dbg = (Inl e, w)"
  by (simp add: StanzaWrapper_init_def)

lemma init_treebank_error:
  "get_stanza_code env language = Inr code \<Longrightarrow>
   setup_treebank env code language treebank = Inl e \<Longrightarrow>
   StanzaWrapper_init env w language treebank dbg = (Inl e, w)"
  using code_available[of env language code]
  by (simp add: StanzaWrapper_init_def)

lemma code_from_tables:
  "map_langs_cltk_stanza language = Some name \<Longrightarrow> lang2lcode env name = Some code \<Longrightarrow>
   get_stanza_code env language = Inr code"
  by (simp add: get_stanza_code_def)

lemma filter_print_notice [simp]:
  "filter is_print (map EvPrint notice) = map EvPrint notice"
  by (simp add: notice_def)

lemma finish_trace:
  "finish env w language code tb dbg = (r, w') \<Longrightarrow>
   w' = w\<lparr>trace := trace w @
          [EvSuppressStdout, EvPipeline (call_args env language code tb dbg), EvRestoreStdout]\<rparr>"
  by (auto simp: finish_def)

lemma finish_result:
  "finish env w language code tb dbg = (r, w') \<Longrightarrow>
   (\<exists>m. r = Inl (LibraryError m)) \<or>
   (\<exists>nlp. r = Inr \<lparr>sw_language = language, sw_treebank = tb, sw_stanza_debug_level = dbg,
               sw_wrapper_available = True, sw_stanza_code = code,
               sw_model_path = spec_model_path (home env) code tb, sw_nlp = nlp\<rparr>)"
  by (auto simp: finish_def split: sum.splits)

lemma setup_default_None:
  "default_treebanks env code = Some d \<Longrightarrow> setup_treebank env code language None = Inr d"
  by (simp add: setup_treebank_def get_default_treebank_def)

lemma init_resolved_result:
  assumes code: "get_stanza_code env language = Inr code"
    and tb: "setup_treebank env code language treebank = Inr tb"
    and init: "StanzaWrapper_init env w language treebank dbg = (r, w')"
  shows "(\<exists>p. r = Inl (FileNotFoundError p)) \<or> (\<exists>m. r = Inl (LibraryError m)) \<or>
         (\<exists>nlp. r = Inr \<lparr>sw_language = language, sw_treebank = tb, sw_stanza_debug_level = dbg,
               sw_wrapper_available = True, sw_stanza_code = code,
               sw_model_path = spec_model_path (home env) code tb, sw_nlp = nlp\<rparr>)"
proof -
  obtain dl fs where dl: "stanza_download env language tb (files w) = (dl, fs)"
    by (cases "stanza_download env language tb (files w)")
  show ?thesis
  proof (cases "spec_model_path (home env) code tb \<in> files w")
    case True
    from init_present[OF code tb True, of dbg] init
    have "finish env (w\<lparr>trace := trace w @ [EvFileExists (spec_model_path (home env) code tb)]\<rparr>)
            language code tb dbg = (r, w')" by simp
    from finish_result[OF this] show ?thesis by blast
  next
    case False
    show ?thesis
    proof (cases dl)
      case (Some m)
      from init_absent_raise[OF code tb False dl[unfolded Some], of dbg] init
      show ?thesis by auto
    next
      case None
      show ?thesis
      proof (cases "spec_model_path (home env) code tb \<in> fs")
        case still_absent: False
        from init_absent_missing[OF code tb False dl[unfolded None] still_absent, of dbg] init
        show ?thesis by auto
      next
        case True
        from init_absent_fetched[OF code tb False dl[unfolded None] True, of dbg] init
        have "finish env
                \<lparr>files = fs,
                 trace = trace w @ [EvFileExists (spec_model_path (home env) code tb)]
                   @ map EvPrint notice
                   @ [EvDownload language tb, EvFileExists (spec_model_path (home env) code tb)]\<rparr>
                language code tb dbg = (r, w')" by simp
        from finish_result[OF this] show ?thesis by blast
      qed
    qed
  qed
qed

lemma init_resolved_first_event:
  assumes code: "get_stanza_code env language = Inr code"
    and tb: "setup_treebank env code language treebank = Inr tb"
    and init: "StanzaWrapper_init env w language treebank dbg = (r, w')"
  shows "\<exists>rest. trace w' = trace w @ EvFileExists (spec_model_path (home env) code tb) # rest"
proof -
  obtain dl fs where dl: "stanza_download env language tb (files w) = (dl, fs)"
    by (cases "stanza_download env language tb (files w)")
  show ?thesis
  proof (cases "spec_model_path (home env) code tb \<in> files w")
    case True
    from init_present[OF code tb True, of dbg] init
    have "finish env (w\<lparr>trace := trace w @ [EvFileExists (spec_model_path (home env) code tb)]\<rparr>)
            language code tb dbg = (r, w')" by simp
    from finish_trace[OF this] show ?thesis by simp
  next
    case False
    show ?thesis
    proof (cases dl)
      case (Some m)
      from init_absent_raise[OF code tb False dl[unfolded Some], of dbg] init
      show ?thesis by auto
    next
      case None
      show ?thesis
      proof (cases "spec_model_path (home env) code tb \<in> fs")
        case still_absent: False
        from init_absent_missing[OF code tb False dl[unfolded None] still_absent, of dbg] init
        show ?thesis by auto
      next
        case True
        from init_absent_fetched[OF code tb False dl[unfolded None] True, of dbg] init
        have "finish env
                \<lparr>files = fs,
                 trace = trace w @ [EvFileExists (spec_model_path (home env) code tb)]
                   @ map EvPrint notice
                   @ [EvDownload language tb, EvFileExists (spec_model_path (home env) code tb)]\<rparr>
                language code tb dbg = (r, w')" by simp
        from finish_trace[OF this] show ?thesis by simp
      qed
    qed
  qed
qed

lemma init_resolved_files:
  assumes code: "get_stanza_code env language = Inr code"
    and tb: "setup_treebank env code language treebank = Inr tb"
    and absent: "spec_model_path (home env) code tb \<notin> files w"
    and init: "StanzaWrapper_init env w language treebank dbg = (r, w')"
  shows "files w' = snd (stanza_download env language tb (files w))"
    and "\<forall>m. fst (stanza_download env language tb (files w)) = Some m \<longrightarrow> r = Inl (LibraryError m)"
proof -
  obtain dl fs where dl: "stanza_download env language tb (files w) = (dl, fs)"
    by (cases "stanza_download env language tb (files w)")
  have "files w' = fs \<and> (\<forall>m. dl = Some m \<longrightarrow> r = Inl (LibraryError m))"
  proof (cases dl)
    case (Some m)
    from init_absent_raise[OF code tb absent dl[unfolded Some], of dbg] init
    show ?thesis using Some by auto
  next
    case None
    show ?thesis
    proof (cases "spec_model_path (home env) code tb \<in> fs")
      case False
      from init_absent_missing[OF code tb absent dl[unfolded None] False, of dbg] init
      show ?thesis using None by auto
    next
      case True
      from init_absent_fetched[OF code tb absent dl[unfolded None] True, of dbg] init
      have "finish env
              \<lparr>files = fs,
               trace = trace w @ [EvFileExists (spec_model_path (home env) code tb)]
                 @ map EvPrint notice
                 @ [EvDownload language tb, EvFileExists (spec_model_path (home env) code tb)]\<rparr>
              language code tb dbg = (r, w')" by simp
      from finish_trace[OF this] show ?thesis using None by simp
    qed
  qed
  with dl show "files w' = snd (stanza_download env language tb (files w))"
    and "\<forall>m. fst (stanza_download env language tb (files w)) = Some m \<longrightarrow> r = Inl (LibraryError m)"
    by simp_all
qed

lemma init_resolved_value:
  assumes code: "get_stanza_code env language = Inr code"
    and tb: "setup_treebank env code language treebank = Inr tb"
  shows "fst (StanzaWrapper_init env w language treebank dbg) =
     (if spec_model_path (home env) code tb \<in> files w
      then fst (finish env w language code tb dbg)
      else case stanza_download env language tb (files w) of
             (Some m, fs) \<Rightarrow> Inl (LibraryError m)
           | (None, fs) \<Rightarrow>
               if spec_model_path (home env) code tb \<in> fs
               then fst (finish env (w\<lparr>files := fs\<rparr>) language code tb dbg)
               else Inl (FileNotFoundError (spec_model_path (home env) code tb)))"
proof -
  obtain dl fs where dl: "stanza_download env language tb (files w) = (dl, fs)"
    by (cases "stanza_download env language tb (files w)")
  show ?thesis
  proof (cases "spec_model_path (home env) code tb \<in> files w")
    case True
    from init_present[OF code tb True, of dbg] True show ?thesis
      by (simp add: finish_def)
  next
    case False
    show ?thesis
    proof (cases dl)
      case (Some m)
      from init_absent_raise[OF code tb False dl[unfolded Some], of dbg] False dl Some
      show ?thesis by simp
    next
      case None
      show ?thesis
      proof (cases "spec_model_path (home env) code tb \<in> fs")
        case still_absent: False
        from init_absent_missing[OF code tb False dl[unfolded None] still_absent, of dbg]
          False dl None still_absent
        show ?thesis by simp
      next
        case True
        from init_absent_fetched[OF code tb False dl[unfolded None] True, of dbg]
          False dl None True
        show ?thesis by (simp add: finish_def)
      qed
    qed
  qed
qed

subsection \<open>Facts of the sample environment\<close>

lemma sample_default_fro: "default_treebanks sample_env ''fro'' = Some ''srcmf''"
  by (simp add: sample_env_def sample_default_treebanks_def)

lemma sample_code_lat: "get_stanza_code sample_env ''lat'' = Inr ''la''"
  by (simp add: get_stanza_code_def map_langs_cltk_stanza_def sample_env_def sample_lang2lcode_def)

lemma sample_code_grc: "get_stanza_code sample_env ''grc'' = Inr ''grc''"
  by (simp add: get_stanza_code_def map_langs_cltk_stanza_def sample_env_def sample_lang2lcode_def)

lemma sample_code_chu: "get_stanza_code sample_env ''chu'' = Inr ''cu''"
  by (simp add: get_stanza_code_def map_langs_cltk_stanza_def sample_env_def sample_lang2lcode_def)

lemma sample_code_fro: "get_stanza_code sample_env ''fro'' = Inr ''fro''"
  by (simp add: get_stanza_code_def map_langs_cltk_stanza_def sample_env_def sample_lang2lcode_def)

lemma sample_default_grc: "default_treebanks sample_env ''grc'' = Some ''proiel''"
  by (simp add: sample_env_def sample_default_treebanks_def)

lemma sample_default_la: "default_treebanks sample_env ''la'' = Some ''ittb''"
  by (simp add: sample_env_def sample_default_treebanks_def)

lemma sample_setup_lat_perseus:
  "setup_treebank sample_env ''la'' ''lat'' (Some ''perseus'') = Inr ''perseus''"
  by (simp add: setup_treebank_def is_valid_treebank_def map_code_treebanks_def)

lemma sample_path_la_ittb:
  "spec_model_path (home sample_env) ''la'' ''ittb''
     = ''/home/user/stanza_resources/la/tokenize/ittb.pt''"
  by (simp add: spec_model_path_def sample_env_def)

lemma sample_path_la_perseus:
  "spec_model_path (home sample_env) ''la'' ''perseus''
     = ''/home/user/stanza_resources/la/tokenize/perseus.pt''"
  by (simp add: spec_model_path_def sample_env_def)

lemma sample_download_lat:
  "stanza_download sample_env ''lat'' ''ittb'' (files empty_world)
     = (None, {''/home/user/stanza_resources/lat/tokenize/ittb.pt''})"
  by (simp add: sample_env_def sample_download_def empty_world_def)

lemma setup_default_grc: "setup_treebank sample_env ''grc'' ''grc'' (Some '''') = Inr ''proiel''"
  by (simp add: setup_treebank_def get_default_treebank_def sample_env_def
      sample_default_treebanks_def)

lemma sample_init_grc_default:
  "\<exists>inst w'. StanzaWrapper_init sample_env empty_world ''grc'' None ''INFO'' = (Inr inst, w')"
proof -
  have 2: "spec_model_path (home sample_env) ''grc'' ''proiel'' \<notin> files empty_world"
    by (simp add: empty_world_def)
  have 3: "stanza_download sample_env ''grc'' ''proiel'' (files empty_world)
             = (None, {''/home/user/stanza_resources/grc/tokenize/proiel.pt''})"
    by (simp add: sample_env_def sample_download_def empty_world_def)
  have 4: "spec_model_path (home sample_env) ''grc'' ''proiel''
             \<in> {''/home/user/stanza_resources/grc/tokenize/proiel.pt''}"
    by (simp add: spec_model_path_def sample_env_def)
  show ?thesis
    unfolding init_absent_fetched[OF sample_code_grc setup_default_None[OF sample_default_grc] 2 3 4]
    by (simp add: finish_def sample_env_def)
qed

lemma sample_grc_first:
  "fst (get_nlp sample_env empty_cls ''grc'' None) = Inr 0"
proof -
  have 2: "spec_model_path (home sample_env) ''grc'' ''proiel'' \<notin> files (outside empty_cls)"
    by (simp add: empty_cls_def empty_world_def)
  have 3: "stanza_download sample_env ''grc'' ''proiel'' (files (outside empty_cls))
             = (None, {''/home/user/stanza_resources/grc/tokenize/proiel.pt''})"
    by (simp add: sample_env_def sample_download_def empty_cls_def empty_world_def)
  have 4: "spec_model_path (home sample_env) ''grc'' ''proiel''
             \<in> {''/home/user/stanza_resources/grc/tokenize/proiel.pt''}"
    by (simp add: spec_model_path_def sample_env_def)
  have 5: "nlps empty_cls ''grc'' = None" by (simp add: empty_cls_def)
  show ?thesis
    unfolding get_nlp_def
      init_absent_fetched[OF sample_code_grc setup_default_None[OF sample_default_grc] 2 3 4]
    using 5 by (simp add: finish_def sample_env_def empty_cls_def Let_def)
qed

lemma sample_codes_differ:
  "get_stanza_code sample_env language = Inr code \<Longrightarrow>
   (code \<noteq> language \<longleftrightarrow> language \<in> {''lat'', ''chu''})"
  by (auto simp: get_stanza_code_def map_langs_cltk_stanza_def sample_env_def
      sample_lang2lcode_def split: if_splits)

subsection \<open>Invalid treebanks\<close>

text \<open>
  Claim C1, as amended. When the Stanza code of the language has an entry in
  \<^verbatim>\<open>map_code_treebanks\<close> (the codes \<^verbatim>\<open>grc\<close> and \<^verbatim>\<open>la\<close>), every non-empty
  treebank that is not in the entry makes the constructor raise
  \<^verbatim>\<open>UnimplementedLanguageError\<close>, with the world unchanged: no check of the model
  file and no download has happened.
\<close>

theorem invalid_treebank_raises:
  assumes "get_stanza_code env language = Inr code"
    and "map_code_treebanks code = Some possible_treebanks"
    and "t \<noteq> []"
    and "t \<notin> set possible_treebanks"
  shows "StanzaWrapper_init env w language (Some t) dbg
           = (Inl (UnimplementedLanguageError t language), w)"
proof -
  have "setup_treebank env code language (Some t) = Inl (UnimplementedLanguageError t language)"
    using assms(2-4) by (simp add: setup_treebank_def is_valid_treebank_def)
  with assms(1) show ?thesis by (rule init_treebank_error)
qed

theorem invalid_treebank_raises_witness:
  "StanzaWrapper_init sample_env empty_world ''lat'' (Some ''xxx'') ''INFO''
     = (Inl (UnimplementedLanguageError ''xxx'' ''lat''), empty_world)"
proof -
  have tbl: "map_code_treebanks ''la'' = Some [''perseus'', ''proiel'', ''ittb'']"
    by (simp add: map_code_treebanks_def)
  have ne: "''xxx'' \<noteq> []" by simp
  have nin: "''xxx'' \<notin> set [''perseus'', ''proiel'', ''ittb'']" by simp
  show ?thesis
    using invalid_treebank_raises[OF sample_code_lat tbl ne nin] .
qed

text \<open>
  The empty string is not a variant of Greek, yet the constructor treats it as an
  omitted treebank: with the sample environment it builds the instance for the default
  variant.
\<close>

theorem invalid_treebank_counterexample:
  "is_valid_treebank ''grc'' '''' = Inr False \<and>
   fst (StanzaWrapper_init sample_env empty_world ''grc'' (Some '''') ''ERROR'')
     = Inr \<lparr>sw_language = ''grc'', sw_treebank = ''proiel'', sw_stanza_debug_level = ''ERROR'',
            sw_wrapper_available = True, sw_stanza_code = ''grc'',
            sw_model_path = ''/home/user/stanza_resources/grc/tokenize/proiel.pt'',
            sw_nlp = \<lparr>lang = ''grc'', dir = ''/home/user/stanza_resources/'',
                       package = ''proiel'', processors = ''tokenize,mwt,pos,lemma,depparse'',
                       logging_level = ''ERROR'', use_gpu = True, lemma_use_identity = False\<rparr>\<rparr>"
proof -
  have 1: "is_valid_treebank ''grc'' '''' = Inr False"
    by (simp add: is_valid_treebank_def map_code_treebanks_def)
  have 2: "spec_model_path (home sample_env) ''grc'' ''proiel'' \<notin> files empty_world"
    by (simp add: empty_world_def)
  have 3: "stanza_download sample_env ''grc'' ''proiel'' (files empty_world)
             = (None, {''/home/user/stanza_resources/grc/tokenize/proiel.pt''})"
    by (simp add: sample_env_def sample_download_def empty_world_def)
  have 4: "spec_model_path (home sample_env) ''grc'' ''proiel''
             \<in> {''/home/user/stanza_resources/grc/tokenize/proiel.pt''}"
    by (simp add: spec_model_path_def sample_env_def)
  show ?thesis
    unfolding init_absent_fetched[OF sample_code_grc setup_default_grc 2 3 4]
    using 1 by (simp add: finish_def call_args_def sample_env_def spec_model_path_def)
qed

text \<open>
  In every environment, the empty string and an omitted treebank give the same
  construction.
\<close>

lemma setup_treebank_empty:
  "setup_treebank env code language (Some []) = setup_treebank env code language None"
  by (simp add: setup_treebank_def)

lemma empty_treebank_is_omitted:
  "StanzaWrapper_init env w language (Some []) dbg = StanzaWrapper_init env w language None dbg"
  by (simp only: StanzaWrapper_init_def setup_treebank_empty)

text \<open>
  A code without an entry in \<^verbatim>\<open>map_code_treebanks\<close>: the dictionary read of
  \<^verbatim>\<open>_is_valid_treebank\<close> raises \<^verbatim>\<open>KeyError\<close> for every non-empty treebank,
  valid or not. With the tables of the library this is the case of \<^verbatim>\<open>chu\<close>,
  \<^verbatim>\<open>fro\<close> and \<^verbatim>\<open>got\<close>.
\<close>

lemma treebank_table_missing_key:
  assumes "get_stanza_code env language = Inr code"
    and "map_code_treebanks code = None"
    and "t \<noteq> []"
  shows "StanzaWrapper_init env w language (Some t) dbg = (Inl (KeyError (MissingKey code)), w)"
proof -
  have "setup_treebank env code language (Some t) = Inl (KeyError (MissingKey code))"
    using assms(2,3) by (simp add: setup_treebank_def is_valid_treebank_def)
  with assms(1) show ?thesis by (rule init_treebank_error)
qed

lemma chu_treebank_key_error:
  "StanzaWrapper_init sample_env w ''chu'' (Some ''xxx'') dbg = (Inl (KeyError (MissingKey ''cu'')), w)"
  "StanzaWrapper_init sample_env w ''chu'' (Some ''proiel'') dbg = (Inl (KeyError (MissingKey ''cu'')), w)"
  by (rule treebank_table_missing_key[OF sample_code_chu]; simp add: map_code_treebanks_def)+

subsection \<open>The cache of pipelines\<close>

text \<open>
  Claim C2. When \<^verbatim>\<open>get_nlp\<close> has returned a reference for a language, a second
  call for the same language returns the same reference, whatever the treebank of either
  call, and leaves the whole state as it was: nothing is constructed, checked, printed or
  downloaded.
\<close>

theorem get_nlp_cached:
  assumes "get_nlp env s language t1 = (Inr r, s1)"
  shows "get_nlp env s1 language t2 = (Inr r, s1)"
proof (cases "nlps s language")
  case (Some r0)
  with assms have "r = r0" "s1 = s" by (simp_all add: get_nlp_def)
  with Some show ?thesis by (simp add: get_nlp_def)
next
  case None
  obtain res w' where init: "StanzaWrapper_init env (outside s) language t1 ''ERROR'' = (res, w')"
    by (cases "StanzaWrapper_init env (outside s) language t1 ''ERROR''")
  show ?thesis
  proof (cases res)
    case (Inl e)
    with None init assms show ?thesis by (simp add: get_nlp_def)
  next
    case (Inr nlp)
    with None init assms have "nlps s1 language = Some r"
      by (auto simp: get_nlp_def Let_def)
    then show ?thesis by (simp add: get_nlp_def)
  qed
qed

theorem get_nlp_cached_witness:
  "fst (get_nlp sample_env empty_cls ''grc'' None) = Inr 0 \<and>
   get_nlp sample_env (snd (get_nlp sample_env empty_cls ''grc'' None)) ''grc'' (Some ''perseus'')
     = (Inr 0, snd (get_nlp sample_env empty_cls ''grc'' None))"
proof -
  have "get_nlp sample_env empty_cls ''grc'' None
          = (Inr 0, snd (get_nlp sample_env empty_cls ''grc'' None))"
    using sample_grc_first by (simp add: prod_eq_iff)
  from get_nlp_cached[OF this] sample_grc_first show ?thesis by simp
qed

subsection \<open>Unsupported languages\<close>

text \<open>
  Claim C3. For every language outside the five keys of \<^verbatim>\<open>map_langs_cltk_stanza\<close>
  and every treebank argument, given or omitted, the constructor raises
  \<^verbatim>\<open>UnknownLanguageError\<close> for that language, no other error, and leaves the world
  as it was.
\<close>

theorem unknown_language_raises:
  "language \<notin> {''grc'', ''lat'', ''chu'', ''fro'', ''got''} \<Longrightarrow>
   StanzaWrapper_init env w language treebank dbg = (Inl (UnknownLanguageError language), w)"
  using init_unavailable[of language env w treebank dbg] supported_iff[of language] by blast

theorem unknown_language_raises_witness:
  "''xxx'' \<notin> {''grc'', ''lat'', ''chu'', ''fro'', ''got''} \<and>
   StanzaWrapper_init sample_env empty_world ''xxx'' (Some ''proiel'') ''INFO''
     = (Inl (UnknownLanguageError ''xxx''), empty_world)"
  using unknown_language_raises[of "''xxx''" sample_env empty_world "Some ''proiel''" "''INFO''"]
  by simp

subsection \<open>A missing model file\<close>

text \<open>
  Claim C4. When the model file is not at the expected path, the trace of the
  construction holds exactly one call of the downloader. When the downloader returns and
  the file is still not there, the constructor raises \<^verbatim>\<open>FileNotFoundError\<close> for
  the path right after the second check: there is no second download and no pipeline.
  An exception of the downloader itself reaches the caller.
\<close>

theorem download_attempted_once:
  assumes code: "get_stanza_code env language = Inr code"
    and tb: "setup_treebank env code language treebank = Inr tb"
    and absent: "spec_model_path (home env) code tb \<notin> files w"
    and init: "StanzaWrapper_init env w language treebank dbg = (r, w')"
    and dl: "stanza_download env language tb (files w) = (d, fs)"
  shows "(\<exists>new. trace w' = trace w @ new \<and> filter is_download new = [EvDownload language tb])
       \<and> (d = None \<and> spec_model_path (home env) code tb \<notin> fs \<longrightarrow>
            r = Inl (FileNotFoundError (spec_model_path (home env) code tb))
            \<and> trace w' = trace w @ [EvFileExists (spec_model_path (home env) code tb)]
                 @ map EvPrint notice
                 @ [EvDownload language tb, EvFileExists (spec_model_path (home env) code tb)])
       \<and> (\<forall>m. d = Some m \<longrightarrow> r = Inl (LibraryError m))"
proof (cases d)
  case (Some m)
  from init_absent_raise[OF code tb absent dl[unfolded Some], of dbg] init
  show ?thesis using Some by auto
next
  case None
  show ?thesis
  proof (cases "spec_model_path (home env) code tb \<in> fs")
    case False
    from init_absent_missing[OF code tb absent dl[unfolded None] False, of dbg] init
    show ?thesis using None False by auto
  next
    case True
    from init_absent_fetched[OF code tb absent dl[unfolded None] True, of dbg] init
    have "finish env
             \<lparr>files = fs,
              trace = trace w @ [EvFileExists (spec_model_path (home env) code tb)]
                @ map EvPrint notice
                @ [EvDownload language tb, EvFileExists (spec_model_path (home env) code tb)]\<rparr>
             language code tb dbg = (r, w')" by simp
    from finish_trace[OF this]
    have "trace w' = trace w @ [EvFileExists (spec_model_path (home env) code tb)]
            @ map EvPrint notice
            @ [EvDownload language tb, EvFileExists (spec_model_path (home env) code tb)]
            @ [EvSuppressStdout, EvPipeline (call_args env language code tb dbg), EvRestoreStdout]"
      by simp
    then show ?thesis using None True by auto
  qed
qed

theorem download_attempted_once_witness:
  "fst (StanzaWrapper_init sample_env empty_world ''lat'' None ''ERROR'')
     = Inl (FileNotFoundError ''/home/user/stanza_resources/la/tokenize/ittb.pt'')
   \<and> trace (snd (StanzaWrapper_init sample_env empty_world ''lat'' None ''ERROR''))
     = [EvFileExists ''/home/user/stanza_resources/la/tokenize/ittb.pt'']
       @ map EvPrint notice
       @ [EvDownload ''lat'' ''ittb'',
          EvFileExists ''/home/user/stanza_resources/la/tokenize/ittb.pt'']"
proof -
  have absent: "spec_model_path (home sample_env) ''la'' ''ittb'' \<notin> files empty_world"
    by (simp add: empty_world_def)
  have init: "StanzaWrapper_init sample_env empty_world ''lat'' None ''ERROR''
      = (fst (StanzaWrapper_init sample_env empty_world ''lat'' None ''ERROR''),
         snd (StanzaWrapper_init sample_env empty_world ''lat'' None ''ERROR''))"
    by simp
  from download_attempted_once[OF sample_code_lat setup_default_None[OF sample_default_la]
      absent init sample_download_lat]
  show ?thesis
    by (simp add: sample_path_la_ittb empty_world_def)
qed

subsection \<open>A model file that is present\<close>

text \<open>
  Claim C5. When the model file is at the expected path, the construction leaves the
  files as they are and its trace is the check of the path followed by the call of the
  pipeline constructor under the suppression of standard output: no line is printed and
  the downloader is not called.
\<close>

theorem present_model_no_download:
  assumes code: "get_stanza_code env language = Inr code"
    and tb: "setup_treebank env code language treebank = Inr tb"
    and present: "spec_model_path (home env) code tb \<in> files w"
    and init: "StanzaWrapper_init env w language treebank dbg = (r, w')"
  shows "files w' = files w
       \<and> (\<exists>args. trace w' = trace w @ [EvFileExists (spec_model_path (home env) code tb),
                       EvSuppressStdout, EvPipeline args, EvRestoreStdout]
                \<and> lang args = code \<and> package args = tb)
       \<and> (\<exists>new. trace w' = trace w @ new
                \<and> filter is_download new = [] \<and> filter is_print new = [])"
proof -
  from init_present[OF code tb present, of dbg] init
  have "finish env (w\<lparr>trace := trace w @ [EvFileExists (spec_model_path (home env) code tb)]\<rparr>)
          language code tb dbg = (r, w')" by simp
  from finish_trace[OF this]
  have "w' = w\<lparr>trace := trace w @ [EvFileExists (spec_model_path (home env) code tb)]
           @ [EvSuppressStdout, EvPipeline (call_args env language code tb dbg), EvRestoreStdout]\<rparr>"
    by simp
  then show ?thesis by (auto simp: call_args_def)
qed

theorem present_model_no_download_witness:
  "files (snd (StanzaWrapper_init sample_env stocked_world ''lat'' (Some ''perseus'') ''ERROR''))
     = files stocked_world
   \<and> (\<exists>args. trace (snd (StanzaWrapper_init sample_env stocked_world ''lat'' (Some ''perseus'') ''ERROR''))
         = [EvFileExists ''/home/user/stanza_resources/la/tokenize/perseus.pt'',
            EvSuppressStdout, EvPipeline args, EvRestoreStdout]
         \<and> lang args = ''la'' \<and> package args = ''perseus'')"
proof -
  have present: "spec_model_path (home sample_env) ''la'' ''perseus'' \<in> files stocked_world"
    by (simp add: sample_path_la_perseus stocked_world_def)
  have init: "StanzaWrapper_init sample_env stocked_world ''lat'' (Some ''perseus'') ''ERROR''
      = (fst (StanzaWrapper_init sample_env stocked_world ''lat'' (Some ''perseus'') ''ERROR''),
         snd (StanzaWrapper_init sample_env stocked_world ''lat'' (Some ''perseus'') ''ERROR''))"
    by simp
  from present_model_no_download[OF sample_code_lat sample_setup_lat_perseus present init]
  show ?thesis
    by (simp add: sample_path_la_perseus stocked_world_def)
qed

subsection \<open>The default treebank\<close>

text \<open>
  Claim C6. For a supported language whose name the library maps to a code with a
  default treebank, the constructor called without a treebank continues with that
  default: the path it checks first is built from it, every instance it returns holds
  it, and the result is the instance built by the pipeline constructor whenever the model
  file is on disk or the download delivers it. The only failures left are those of the
  downloader, of the pipeline constructor and of a model file still missing after the
  download.
\<close>

theorem default_treebank_used:
  assumes name: "map_langs_cltk_stanza language = Some name"
    and lc: "lang2lcode env name = Some code"
    and dflt: "default_treebanks env code = Some d"
  shows "fst (StanzaWrapper_init env w language None dbg) =
     (let model_path = home env @ ''/stanza_resources/'' @ code @ ''/tokenize/'' @ d @ ''.pt'';
          build = (\<lambda>fs. case stanza_Pipeline env (call_args env language code d dbg) fs of
                     Inl m \<Rightarrow> Inl (LibraryError m)
                   | Inr nlp \<Rightarrow>
                       Inr \<lparr>sw_language = language, sw_treebank = d,
                            sw_stanza_debug_level = dbg, sw_wrapper_available = True,
                            sw_stanza_code = code, sw_model_path = model_path, sw_nlp = nlp\<rparr>)
      in if model_path \<in> files w then build (files w)
         else case stanza_download env language d (files w) of
                (Some m, fs) \<Rightarrow> Inl (LibraryError m)
              | (None, fs) \<Rightarrow>
                  if model_path \<in> fs then build fs else Inl (FileNotFoundError model_path))
   \<and> (\<forall>inst. fst (StanzaWrapper_init env w language None dbg) = Inr inst \<longrightarrow>
         sw_language inst = language \<and> sw_stanza_code inst = code \<and> sw_treebank inst = d)
   \<and> take 1 (drop (length (trace w)) (trace (snd (StanzaWrapper_init env w language None dbg))))
       = [EvFileExists (home env @ ''/stanza_resources/'' @ code @ ''/tokenize/'' @ d @ ''.pt'')]"
proof -
  note code = code_from_tables[OF name lc]
  note tb = setup_default_None[OF dflt, of language]
  have init: "StanzaWrapper_init env w language None dbg
      = (fst (StanzaWrapper_init env w language None dbg),
         snd (StanzaWrapper_init env w language None dbg))" by simp
  have 1: "fst (StanzaWrapper_init env w language None dbg) =
     (let model_path = spec_model_path (home env) code d;
          build = (\<lambda>fs. case stanza_Pipeline env (call_args env language code d dbg) fs of
                     Inl m \<Rightarrow> Inl (LibraryError m)
                   | Inr nlp \<Rightarrow>
                       Inr \<lparr>sw_language = language, sw_treebank = d,
                            sw_stanza_debug_level = dbg, sw_wrapper_available = True,
                            sw_stanza_code = code, sw_model_path = model_path, sw_nlp = nlp\<rparr>)
      in if model_path \<in> files w then build (files w)
         else case stanza_download env language d (files w) of
                (Some m, fs) \<Rightarrow> Inl (LibraryError m)
              | (None, fs) \<Rightarrow>
                  if model_path \<in> fs then build fs else Inl (FileNotFoundError model_path))"
    unfolding init_resolved_value[OF code tb]
    by (simp add: finish_def Let_def split: prod.splits option.splits)
  from init_resolved_result[OF code tb init]
  have 2: "\<forall>inst. fst (StanzaWrapper_init env w language None dbg) = Inr inst \<longrightarrow>
         sw_language inst = language \<and> sw_stanza_code inst = code \<and> sw_treebank inst = d"
    by auto
  from init_resolved_first_event[OF code tb init]
  have 3: "take 1 (drop (length (trace w)) (trace (snd (StanzaWrapper_init env w language None dbg))))
       = [EvFileExists (spec_model_path (home env) code d)]"
    by auto
  from 1 2 3 show ?thesis unfolding spec_model_path_def by blast
qed

theorem default_treebank_used_witness:
  "fst (StanzaWrapper_init sample_env empty_world ''fro'' None ''INFO'')
     = Inr \<lparr>sw_language = ''fro'', sw_treebank = ''srcmf'', sw_stanza_debug_level = ''INFO'',
            sw_wrapper_available = True, sw_stanza_code = ''fro'',
            sw_model_path = ''/home/user/stanza_resources/fro/tokenize/srcmf.pt'',
            sw_nlp = \<lparr>lang = ''fro'', dir = ''/home/user/stanza_resources/'',
                       package = ''srcmf'', processors = ''tokenize,pos,lemma'',
                       logging_level = ''INFO'', use_gpu = True, lemma_use_identity = True\<rparr>\<rparr>
   \<and> fst (StanzaWrapper_init sample_env empty_world ''grc'' None ''INFO'')
     = Inr \<lparr>sw_language = ''grc'', sw_treebank = ''proiel'', sw_stanza_debug_level = ''INFO'',
            sw_wrapper_available = True, sw_stanza_code = ''grc'',
            sw_model_path = ''/home/user/stanza_resources/grc/tokenize/proiel.pt'',
            sw_nlp = \<lparr>lang = ''grc'', dir = ''/home/user/stanza_resources/'',
                       package = ''proiel'', processors = ''tokenize,mwt,pos,lemma,depparse'',
                       logging_level = ''INFO'', use_gpu = True, lemma_use_identity = False\<rparr>\<rparr>"
proof -
  have name_fro: "map_langs_cltk_stanza ''fro'' = Some ''Old_French''"
    by (simp add: map_langs_cltk_stanza_def)
  have lc_fro: "lang2lcode sample_env ''Old_French'' = Some ''fro''"
    by (simp add: sample_env_def sample_lang2lcode_def)
  have name_grc: "map_langs_cltk_stanza ''grc'' = Some ''Ancient_Greek''"
    by (simp add: map_langs_cltk_stanza_def)
  have lc_grc: "lang2lcode sample_env ''Ancient_Greek'' = Some ''grc''"
    by (simp add: sample_env_def sample_lang2lcode_def)
  note fro = default_treebank_used[OF name_fro lc_fro sample_default_fro,
      of empty_world "''INFO''", THEN conjunct1]
  note grc = default_treebank_used[OF name_grc lc_grc sample_default_grc,
      of empty_world "''INFO''", THEN conjunct1]
  have "fst (StanzaWrapper_init sample_env empty_world ''fro'' None ''INFO'')
     = Inr \<lparr>sw_language = ''fro'', sw_treebank = ''srcmf'', sw_stanza_debug_level = ''INFO'',
            sw_wrapper_available = True, sw_stanza_code = ''fro'',
            sw_model_path = ''/home/user/stanza_resources/fro/tokenize/srcmf.pt'',
            sw_nlp = \<lparr>lang = ''fro'', dir = ''/home/user/stanza_resources/'',
                       package = ''srcmf'', processors = ''tokenize,pos,lemma'',
                       logging_level = ''INFO'', use_gpu = True, lemma_use_identity = True\<rparr>\<rparr>"
    unfolding fro
    by (simp add: sample_env_def sample_download_def empty_world_def call_args_def)
  moreover have "fst (StanzaWrapper_init sample_env empty_world ''grc'' None ''INFO'')
     = Inr \<lparr>sw_language = ''grc'', sw_treebank = ''proiel'', sw_stanza_debug_level = ''INFO'',
            sw_wrapper_available = True, sw_stanza_code = ''grc'',
            sw_model_path = ''/home/user/stanza_resources/grc/tokenize/proiel.pt'',
            sw_nlp = \<lparr>lang = ''grc'', dir = ''/home/user/stanza_resources/'',
                       package = ''proiel'', processors = ''tokenize,mwt,pos,lemma,depparse'',
                       logging_level = ''INFO'', use_gpu = True, lemma_use_identity = False\<rparr>\<rparr>"
    unfolding grc
    by (simp add: sample_env_def sample_download_def empty_world_def call_args_def)
  ultimately show ?thesis by (rule conjI)
qed

subsection \<open>The processors of the pipeline\<close>

text \<open>
  Claim C7. \<^verbatim>\<open>_load_pipeline\<close> calls the pipeline constructor once; for the
  language \<^verbatim>\<open>fro\<close> the processors are \<^verbatim>\<open>tokenize,pos,lemma\<close> and
  \<^verbatim>\<open>lemma_use_identity\<close> is true, for every other language the processors are
  \<^verbatim>\<open>tokenize,mwt,pos,lemma,depparse\<close> and \<^verbatim>\<open>lemma_use_identity\<close> is false.
\<close>

theorem load_pipeline_processors:
  "\<exists>args. load_pipeline env w language code tb dbg =
            (case stanza_Pipeline env args (files w) of
               Inl m \<Rightarrow> Inl (LibraryError m) | Inr nlp \<Rightarrow> Inr nlp,
             w\<lparr>trace := trace w @ [EvPipeline args]\<rparr>)
        \<and> (language = ''fro'' \<longrightarrow>
             processors args = ''tokenize,pos,lemma'' \<and> lemma_use_identity args)
        \<and> (language \<noteq> ''fro'' \<longrightarrow>
             processors args = ''tokenize,mwt,pos,lemma,depparse'' \<and> \<not> lemma_use_identity args)"
  by (rule exI[of _ "call_args env language code tb dbg"])
     (simp add: load_pipeline_eq call_args_def)

theorem load_pipeline_processors_witness:
  "(\<exists>args. load_pipeline sample_env empty_world ''fro'' ''fro'' ''srcmf'' ''ERROR''
             = (Inr args, \<lparr>files = {}, trace = [EvPipeline args]\<rparr>)
           \<and> processors args = ''tokenize,pos,lemma'' \<and> lemma_use_identity args)
   \<and> (\<exists>args. load_pipeline sample_env empty_world ''grc'' ''grc'' ''proiel'' ''ERROR''
             = (Inr args, \<lparr>files = {}, trace = [EvPipeline args]\<rparr>)
           \<and> processors args = ''tokenize,mwt,pos,lemma,depparse'' \<and> \<not> lemma_use_identity args)"
  using load_pipeline_processors[of sample_env empty_world "''fro''" "''fro''" "''srcmf''" "''ERROR''"]
    load_pipeline_processors[of sample_env empty_world "''grc''" "''grc''" "''proiel''" "''ERROR''"]
  by (simp add: sample_env_def empty_world_def)

text \<open>
  The constructor passes its own language to \<^verbatim>\<open>_load_pipeline\<close>: every call of
  the pipeline constructor in the trace of a construction has these arguments.
\<close>

lemma init_pipeline_event:
  assumes code: "get_stanza_code env language = Inr code"
    and tb: "setup_treebank env code language treebank = Inr tb"
    and init: "StanzaWrapper_init env w language treebank dbg = (r, w')"
    and ev: "EvPipeline args \<in> set (drop (length (trace w)) (trace w'))"
  shows "args = call_args env language code tb dbg"
proof -
  obtain dl fs where dl: "stanza_download env language tb (files w) = (dl, fs)"
    by (cases "stanza_download env language tb (files w)")
  have notice_no_pipeline: "EvPipeline args \<notin> set (map EvPrint notice)" by auto
  show ?thesis
  proof (cases "spec_model_path (home env) code tb \<in> files w")
    case True
    from init_present[OF code tb True, of dbg] init
    have "finish env (w\<lparr>trace := trace w @ [EvFileExists (spec_model_path (home env) code tb)]\<rparr>)
            language code tb dbg = (r, w')" by simp
    from finish_trace[OF this] ev show ?thesis by simp
  next
    case False
    show ?thesis
    proof (cases dl)
      case (Some m)
      from init_absent_raise[OF code tb False dl[unfolded Some], of dbg] init ev
        notice_no_pipeline
      show ?thesis by auto
    next
      case None
      show ?thesis
      proof (cases "spec_model_path (home env) code tb \<in> fs")
        case still_absent: False
        from init_absent_missing[OF code tb False dl[unfolded None] still_absent, of dbg] init ev
          notice_no_pipeline
        show ?thesis by auto
      next
        case True
        from init_absent_fetched[OF code tb False dl[unfolded None] True, of dbg] init
        have "finish env
                \<lparr>files = fs,
                 trace = trace w @ [EvFileExists (spec_model_path (home env) code tb)]
                   @ map EvPrint notice
                   @ [EvDownload language tb, EvFileExists (spec_model_path (home env) code tb)]\<rparr>
                language code tb dbg = (r, w')" by simp
        from finish_trace[OF this] ev notice_no_pipeline show ?thesis by auto
      qed
    qed
  qed
qed

lemma init_pipeline_processors:
  assumes "get_stanza_code env language = Inr code"
    and "setup_treebank env code language treebank = Inr tb"
    and "StanzaWrapper_init env w language treebank dbg = (r, w')"
    and "EvPipeline args \<in> set (drop (length (trace w)) (trace w'))"
  shows "processors args = (if language = ''fro'' then ''tokenize,pos,lemma''
                            else ''tokenize,mwt,pos,lemma,depparse'')"
    and "lemma_use_identity args = (language = ''fro'')"
    and "lang args = code" and "package args = tb"
  using init_pipeline_event[OF assms] by (simp_all add: call_args_def)

subsection \<open>The path of the model file\<close>

text \<open>
  Claim C8. With the code that the two tables give for the language and the resolved
  treebank, the first thing the construction does to the world is to check the path
  \<^verbatim>\<open><home>/stanza_resources/<code>/tokenize/<treebank>.pt\<close>, and an instance that
  it returns holds this path, this code and this treebank.
\<close>

theorem model_path_layout:
  assumes name: "map_langs_cltk_stanza language = Some name"
    and lc: "lang2lcode env name = Some code"
    and tb: "setup_treebank env code language treebank = Inr tb"
    and init: "StanzaWrapper_init env w language treebank dbg = (r, w')"
  shows "take 1 (drop (length (trace w)) (trace w'))
           = [EvFileExists (home env @ ''/stanza_resources/'' @ code @ ''/tokenize/'' @ tb @ ''.pt'')]
       \<and> (\<forall>inst. r = Inr inst \<longrightarrow>
             sw_model_path inst
               = home env @ ''/stanza_resources/'' @ code @ ''/tokenize/'' @ tb @ ''.pt''
             \<and> sw_stanza_code inst = code \<and> sw_treebank inst = tb)"
proof -
  note code = code_from_tables[OF name lc]
  from init_resolved_first_event[OF code tb init]
  have "take 1 (drop (length (trace w)) (trace w'))
          = [EvFileExists (spec_model_path (home env) code tb)]"
    by auto
  moreover from init_resolved_result[OF code tb init]
  have "\<forall>inst. r = Inr inst \<longrightarrow>
          sw_model_path inst = spec_model_path (home env) code tb
          \<and> sw_stanza_code inst = code \<and> sw_treebank inst = tb"
    by auto
  ultimately show ?thesis
    unfolding spec_model_path_def by simp
qed

theorem model_path_layout_witness:
  "take 1 (trace (snd (StanzaWrapper_init sample_env stocked_world ''lat'' (Some ''perseus'') ''ERROR'')))
     = [EvFileExists ''/home/user/stanza_resources/la/tokenize/perseus.pt'']
   \<and> (\<exists>inst. fst (StanzaWrapper_init sample_env stocked_world ''lat'' (Some ''perseus'') ''ERROR'')
          = Inr inst
        \<and> sw_model_path inst = ''/home/user/stanza_resources/la/tokenize/perseus.pt''
        \<and> sw_stanza_code inst = ''la'' \<and> sw_treebank inst = ''perseus'')"
proof -
  have name: "map_langs_cltk_stanza ''lat'' = Some ''Latin''"
    by (simp add: map_langs_cltk_stanza_def)
  have lc: "lang2lcode sample_env ''Latin'' = Some ''la''"
    by (simp add: sample_env_def sample_lang2lcode_def)
  have present: "spec_model_path (home sample_env) ''la'' ''perseus'' \<in> files stocked_world"
    by (simp add: sample_path_la_perseus stocked_world_def)
  have ok: "\<exists>inst. fst (StanzaWrapper_init sample_env stocked_world ''lat'' (Some ''perseus'') ''ERROR'')
          = Inr inst"
    unfolding init_present[OF sample_code_lat sample_setup_lat_perseus present]
    by (simp add: finish_def sample_env_def)
  have init: "StanzaWrapper_init sample_env stocked_world ''lat'' (Some ''perseus'') ''ERROR''
      = (fst (StanzaWrapper_init sample_env stocked_world ''lat'' (Some ''perseus'') ''ERROR''),
         snd (StanzaWrapper_init sample_env stocked_world ''lat'' (Some ''perseus'') ''ERROR''))"
    by simp
  from model_path_layout[OF name lc sample_setup_lat_perseus init] ok
  show ?thesis
    by (auto simp: sample_env_def stocked_world_def)
qed

subsection \<open>Failed constructions and the cache\<close>

text \<open>
  Claim C9. When the language is not in the cache and the constructor raises,
  \<^verbatim>\<open>get_nlp\<close> raises the same error and changes nothing but the outside world: the
  cache and the store of instances are as before.
\<close>

theorem get_nlp_failure_leaves_cache:
  assumes "nlps s language = None"
    and "StanzaWrapper_init env (outside s) language treebank ''ERROR'' = (Inl e, w')"
  shows "get_nlp env s language treebank = (Inl e, s\<lparr>outside := w'\<rparr>)
         \<and> nlps (snd (get_nlp env s language treebank)) = nlps s
         \<and> store (snd (get_nlp env s language treebank)) = store s"
  using assms by (simp add: get_nlp_def)

theorem get_nlp_failure_leaves_cache_witness:
  "get_nlp sample_env empty_cls ''lat'' (Some ''xxx'')
     = (Inl (UnimplementedLanguageError ''xxx'' ''lat''), empty_cls)
   \<and> nlps (snd (get_nlp sample_env empty_cls ''lat'' (Some ''xxx''))) = Map.empty
   \<and> store (snd (get_nlp sample_env empty_cls ''lat'' (Some ''xxx''))) = []"
proof -
  have 1: "nlps empty_cls ''lat'' = None" by (simp add: empty_cls_def)
  have tbl: "map_code_treebanks ''la'' = Some [''perseus'', ''proiel'', ''ittb'']"
    by (simp add: map_code_treebanks_def)
  have 2: "StanzaWrapper_init sample_env (outside empty_cls) ''lat'' (Some ''xxx'') ''ERROR''
             = (Inl (UnimplementedLanguageError ''xxx'' ''lat''), empty_world)"
    using init_treebank_error[OF sample_code_lat, of "Some ''xxx''"
        "UnimplementedLanguageError ''xxx'' ''lat''" "outside empty_cls" "''ERROR''"] tbl
    by (simp add: setup_treebank_def is_valid_treebank_def empty_cls_def)
  from get_nlp_failure_leaves_cache[OF 1 2] show ?thesis
    by (simp add: empty_cls_def)
qed

subsection \<open>The language code given to the downloader\<close>

text \<open>
  The trace of a construction that finds no model file.
\<close>

lemma init_absent_trace:
  assumes code: "get_stanza_code env language = Inr code"
    and tb: "setup_treebank env code language treebank = Inr tb"
    and absent: "spec_model_path (home env) code tb \<notin> files w"
    and init: "StanzaWrapper_init env w language treebank dbg = (r, w')"
  shows "\<exists>rest. trace w' = trace w @ [EvFileExists (spec_model_path (home env) code tb)]
                   @ map EvPrint notice @ [EvDownload language tb] @ rest
               \<and> filter is_download rest = []
               \<and> (fst (stanza_download env language tb (files w)) = None \<longrightarrow>
                    take 1 rest = [EvFileExists (spec_model_path (home env) code tb)])
               \<and> (language \<noteq> code \<longrightarrow>
                    EvDownload code tb \<notin> set (drop (length (trace w)) (trace w')))"
proof -
  obtain dl fs where dl: "stanza_download env language tb (files w) = (dl, fs)"
    by (cases "stanza_download env language tb (files w)")
  have notice_no_dl: "EvDownload code tb \<notin> set (map EvPrint notice)" by auto
  show ?thesis
  proof (cases dl)
    case (Some m)
    from init_absent_raise[OF code tb absent dl[unfolded Some], of dbg] init
    have "trace w' = trace w @ [EvFileExists (spec_model_path (home env) code tb)]
            @ map EvPrint notice @ [EvDownload language tb] @ []" by auto
    then show ?thesis using dl Some notice_no_dl
      by (intro exI[of _ "[]"]) auto
  next
    case None
    show ?thesis
    proof (cases "spec_model_path (home env) code tb \<in> fs")
      case False
      from init_absent_missing[OF code tb absent dl[unfolded None] False, of dbg] init
      have "trace w' = trace w @ [EvFileExists (spec_model_path (home env) code tb)]
              @ map EvPrint notice @ [EvDownload language tb]
              @ [EvFileExists (spec_model_path (home env) code tb)]" by auto
      then show ?thesis using notice_no_dl
        by (intro exI[of _ "[EvFileExists (spec_model_path (home env) code tb)]"]) auto
    next
      case True
      from init_absent_fetched[OF code tb absent dl[unfolded None] True, of dbg] init
      have "finish env
              \<lparr>files = fs,
               trace = trace w @ [EvFileExists (spec_model_path (home env) code tb)]
                 @ map EvPrint notice
                 @ [EvDownload language tb, EvFileExists (spec_model_path (home env) code tb)]\<rparr>
              language code tb dbg = (r, w')" by simp
      from finish_trace[OF this]
      have "trace w' = trace w @ [EvFileExists (spec_model_path (home env) code tb)]
              @ map EvPrint notice @ [EvDownload language tb]
              @ [EvFileExists (spec_model_path (home env) code tb), EvSuppressStdout,
                 EvPipeline (call_args env language code tb dbg), EvRestoreStdout]" by simp
      then show ?thesis using notice_no_dl
        by (intro exI[of _ "[EvFileExists (spec_model_path (home env) code tb), EvSuppressStdout,
                 EvPipeline (call_args env language code tb dbg), EvRestoreStdout]"]) auto
    qed
  qed
qed

text \<open>
  Claim C10. When the model file is missing, the downloader is applied once, to the
  language code of the CLTK and the resolved treebank: the files after the construction
  are those it leaves, an exception it raises is the result, and the trace holds the one
  call. The path checked before and after the call is built from the code of the
  library. When the two codes differ, the downloader is never called with the code of
  the path.
\<close>

theorem download_uses_cltk_code:
  assumes code: "get_stanza_code env language = Inr code"
    and tb: "setup_treebank env code language treebank = Inr tb"
    and absent: "spec_model_path (home env) code tb \<notin> files w"
    and init: "StanzaWrapper_init env w language treebank dbg = (r, w')"
  shows "(\<exists>rest. trace w' = trace w @ [EvFileExists (spec_model_path (home env) code tb)]
                   @ map EvPrint notice @ [EvDownload language tb] @ rest
               \<and> filter is_download rest = []
               \<and> (fst (stanza_download env language tb (files w)) = None \<longrightarrow>
                    take 1 rest = [EvFileExists (spec_model_path (home env) code tb)])
               \<and> (language \<noteq> code \<longrightarrow>
                    EvDownload code tb \<notin> set (drop (length (trace w)) (trace w'))))
       \<and> files w' = snd (stanza_download env language tb (files w))
       \<and> (\<forall>m. fst (stanza_download env language tb (files w)) = Some m \<longrightarrow>
             r = Inl (LibraryError m))"
  using init_absent_trace[OF code tb absent init]
    init_resolved_files[OF code tb absent init]
  by blast

theorem download_uses_cltk_code_witness:
  "(\<exists>rest. trace (snd (StanzaWrapper_init sample_env empty_world ''lat'' None ''ERROR''))
             = [EvFileExists ''/home/user/stanza_resources/la/tokenize/ittb.pt'']
               @ map EvPrint notice @ [EvDownload ''lat'' ''ittb''] @ rest
         \<and> filter is_download rest = []
         \<and> take 1 rest = [EvFileExists ''/home/user/stanza_resources/la/tokenize/ittb.pt'']
         \<and> EvDownload ''la'' ''ittb''
              \<notin> set (trace (snd (StanzaWrapper_init sample_env empty_world ''lat'' None ''ERROR''))))
   \<and> files (snd (StanzaWrapper_init sample_env empty_world ''lat'' None ''ERROR''))
        = {''/home/user/stanza_resources/lat/tokenize/ittb.pt''}"
proof -
  have absent: "spec_model_path (home sample_env) ''la'' ''ittb'' \<notin> files empty_world"
    by (simp add: empty_world_def)
  have init: "StanzaWrapper_init sample_env empty_world ''lat'' None ''ERROR''
      = (fst (StanzaWrapper_init sample_env empty_world ''lat'' None ''ERROR''),
         snd (StanzaWrapper_init sample_env empty_world ''lat'' None ''ERROR''))"
    by simp
  note th = download_uses_cltk_code[OF sample_code_lat setup_default_None[OF sample_default_la]
      absent init]
  have tr: "trace empty_world = []" by (simp add: empty_world_def)
  from th show ?thesis
    by (simp add: sample_path_la_ittb sample_download_lat tr)
qed

end
